theory Spec2Isabelle
  imports Main
begin

section \<open>The source: \<open>src/cpp/mainwindow.h\<close>\<close>

text \<open>
  The repository consists of one C++ header. It holds no function body: what it fixes is a
  set of declarations. The development therefore starts from the text of the header, line
  by line, reads it with a small lexer and parser for the declaration subset of C++ the
  header is written in, and states every property on the result. What a declaration means
  (who may name a member, what a call with a default argument passes, what the implicit
  destructor does, what \<open>#pragma once\<close> does to a second inclusion) is the rule of the
  language, written as a function of the parsed declarations. What the header leaves open,
  the body of the constructor and the classes of the GUI toolkit, is a parameter wherever
  it matters.
\<close>

definition mainwindow_h_text :: "string list" where
  "mainwindow_h_text =
  [''#pragma once'',
   '''',
   ''#include <QWidget>'',
   ''#include <QMainWindow>'',
   '''',
   ''// Forward declarations'',
   '''',
   ''class SettingsWindow;'',
   '''',
   ''/******************************************************************************/'',
   ''//'',
   ''// Header for main window'',
   ''//'',
   ''/******************************************************************************/'',
   ''class MainWindow : public QMainWindow'',
   ''{'',
   ''  private:'',
   '''',
   ''    // Widgets that may be placed in main window'',
   '''',
   ''    SettingsWindow *settingswindow;'',
   '''',
   ''  public:'',
   '' '',
   ''    // Constructor'',
   '''',
   ''    MainWindow ( QWidget *parent = 0 );'',
   ''};'']"

definition source_files :: "(string \<times> string list) list" where
  "source_files = [(''src/cpp/mainwindow.h'', mainwindow_h_text)]"

section \<open>Declarations\<close>

datatype access = Private | Protected | Public

datatype ctype = Named string | Pointer ctype

datatype param = Param (ptype: ctype) (pname: string) (pdefault: "nat option")

text \<open>
  A member function carries a flag: \<open>True\<close> when the class body defines it (a brace
  block follows the parameter list), \<open>False\<close> when it is only declared.
\<close>

datatype member =
    Field ctype string
  | Constructor "param list" bool
  | Destructor bool
  | Method ctype string "param list" bool

datatype class_def =
  Class (cname: string) (bases: "(access \<times> string) list") (members: "(access \<times> member) list")

datatype toplevel =
    PragmaOnce
  | Include string
  | ForwardClass string
  | ClassDef class_def
  | GlobalVar ctype string
  | Function ctype string "param list" bool

section \<open>Lexer\<close>

text \<open>
  Comments go first, as in translation phase 3: a \<open>//\<close> comment runs to the end of its
  line, a \<open>/* */\<close> comment may run over lines, and each becomes one blank. The mode is
  threaded from line to line.
\<close>

datatype mode = Code | Slash | LineComment | BlockComment | BlockStar

fun strip_comments :: "mode \<Rightarrow> string \<Rightarrow> mode \<times> string" where
  "strip_comments m [] =
     (case m of
        Slash \<Rightarrow> (Code, ''/'')
      | LineComment \<Rightarrow> (Code, [])
      | BlockStar \<Rightarrow> (BlockComment, [])
      | _ \<Rightarrow> (m, []))"
| "strip_comments m (c # cs) =
     (case m of
        Code \<Rightarrow>
          (if c = CHR ''/'' then strip_comments Slash cs
           else (case strip_comments Code cs of (m', out) \<Rightarrow> (m', c # out)))
      | Slash \<Rightarrow>
          (if c = CHR ''/'' then
             (case strip_comments LineComment cs of (m', out) \<Rightarrow> (m', CHR '' '' # out))
           else if c = CHR ''*'' then
             (case strip_comments BlockComment cs of (m', out) \<Rightarrow> (m', CHR '' '' # out))
           else (case strip_comments Code cs of (m', out) \<Rightarrow> (m', CHR ''/'' # c # out)))
      | LineComment \<Rightarrow> strip_comments LineComment cs
      | BlockComment \<Rightarrow>
          (if c = CHR ''*'' then strip_comments BlockStar cs
           else strip_comments BlockComment cs)
      | BlockStar \<Rightarrow>
          (if c = CHR ''/'' then strip_comments Code cs
           else if c = CHR ''*'' then strip_comments BlockStar cs
           else strip_comments BlockComment cs))"

fun strip_lines :: "mode \<Rightarrow> string list \<Rightarrow> string list" where
  "strip_lines m [] = []"
| "strip_lines m (l # ls) =
     (case strip_comments m l of (m', out) \<Rightarrow> out # strip_lines m' ls)"

datatype token =
    TIdent string
  | TNum nat
  | LBrace | RBrace | LParen | RParen
  | Semi | Colon | Comma | Star | Assign | Tilde
  | Directive "string list"

definition is_blank :: "char \<Rightarrow> bool" where
  "is_blank c = (c = CHR '' '' \<or> of_char c = (9::nat))"

definition is_digit :: "char \<Rightarrow> bool" where
  "is_digit c = (let n = (of_char c :: nat) in 48 \<le> n \<and> n \<le> 57)"

definition is_letter :: "char \<Rightarrow> bool" where
  "is_letter c =
     (let n = (of_char c :: nat) in (65 \<le> n \<and> n \<le> 90) \<or> (97 \<le> n \<and> n \<le> 122) \<or> n = 95)"

definition punct :: "char \<Rightarrow> token option" where
  "punct c =
     (if c = CHR ''{'' then Some LBrace
      else if c = CHR ''}'' then Some RBrace
      else if c = CHR ''('' then Some LParen
      else if c = CHR '')'' then Some RParen
      else if c = CHR '';'' then Some Semi
      else if c = CHR '':'' then Some Colon
      else if c = CHR '','' then Some Comma
      else if c = CHR ''*'' then Some Star
      else if c = CHR ''='' then Some Assign
      else if c = CHR ''~'' then Some Tilde
      else None)"

definition decimal :: "string \<Rightarrow> nat" where
  "decimal w = foldl (\<lambda>n c. 10 * n + (of_char c - 48)) 0 w"

text \<open>
  A finished word is a number when it is all digits, an identifier when it starts with a
  letter or an underscore; anything else (\<open>1abc\<close>) is refused.
\<close>

definition word_token :: "string \<Rightarrow> token list option" where
  "word_token w =
     (case w of
        [] \<Rightarrow> Some []
      | c # _ \<Rightarrow>
          if list_all is_digit w then Some [TNum (decimal w)]
          else if is_letter c then Some [TIdent w]
          else None)"

fun code_tokens :: "string \<Rightarrow> string \<Rightarrow> token list option" where
  "code_tokens w [] = word_token w"
| "code_tokens w (c # cs) =
     (if is_letter c \<or> is_digit c then code_tokens (w @ [c]) cs
      else
        (case word_token w of
           None \<Rightarrow> None
         | Some t1 \<Rightarrow>
             (if is_blank c then map_option (\<lambda>ts. t1 @ ts) (code_tokens [] cs)
              else
                (case punct c of
                   None \<Rightarrow> None
                 | Some p \<Rightarrow> map_option (\<lambda>ts. t1 @ p # ts) (code_tokens [] cs)))))"

text \<open>The words of a directive line: maximal runs of characters that are not blank.\<close>

fun blank_words :: "string \<Rightarrow> string \<Rightarrow> string list" where
  "blank_words w [] = (if w = [] then [] else [w])"
| "blank_words w (c # cs) =
     (if is_blank c then (if w = [] then [] else [w]) @ blank_words [] cs
      else blank_words (w @ [c]) cs)"

text \<open>
  A line whose first character after blanks is \<open>#\<close> is a preprocessing directive and
  becomes one token; every other line is C++ text.
\<close>

definition line_tokens :: "string \<Rightarrow> token list option" where
  "line_tokens l =
     (case dropWhile is_blank l of
        [] \<Rightarrow> Some []
      | c # cs \<Rightarrow>
          if c = CHR ''#'' then Some [Directive (blank_words [] cs)]
          else code_tokens [] (c # cs))"

definition lex :: "string list \<Rightarrow> token list option" where
  "lex ls = map_option concat (those (map line_tokens (strip_lines Code ls)))"

section \<open>Parser\<close>

text \<open>
  The grammar is the declaration subset of C++ that a header of this kind is written in:
  \<^verbatim>\<open>
  item    ::= #pragma once | #include <name> | class C ; | class C [: base, ...] { member ... } ;
            | type name ; | type name ( params ) end
  base    ::= [private | protected | public] C
  member  ::= private : | protected : | public :
            | type name ; | C ( params ) end | ~ C ( ) end | type name ( params ) end
  type    ::= name * ...
  param   ::= type name [= number]
  end     ::= ; | { ... }
  \<close>
  Whatever is outside the grammar makes the parser return \<open>None\<close>.
\<close>

fun pointer_stars :: "ctype \<Rightarrow> token list \<Rightarrow> ctype \<times> token list" where
  "pointer_stars t [] = (t, [])"
| "pointer_stars t (x # ts) =
     (if x = Star then pointer_stars (Pointer t) ts else (t, x # ts))"

definition parse_type :: "token list \<Rightarrow> (ctype \<times> token list) option" where
  "parse_type ts =
     (case ts of
        TIdent n # rest \<Rightarrow> Some (pointer_stars (Named n) rest)
      | _ \<Rightarrow> None)"

definition parse_param :: "token list \<Rightarrow> param option" where
  "parse_param ts =
     (case parse_type ts of
        None \<Rightarrow> None
      | Some (ty, rest) \<Rightarrow>
          (case rest of
             [TIdent n] \<Rightarrow> Some (Param ty n None)
           | [TIdent n, eq, TNum d] \<Rightarrow> if eq = Assign then Some (Param ty n (Some d)) else None
           | _ \<Rightarrow> None))"

fun split_commas :: "token list \<Rightarrow> token list \<Rightarrow> token list list" where
  "split_commas acc [] = [acc]"
| "split_commas acc (x # ts) =
     (if x = Comma then acc # split_commas [] ts else split_commas (acc @ [x]) ts)"

text \<open>
  The parameter list after an opening parenthesis, up to its closing one. Parameter
  types of this grammar hold no parentheses, so the first \<open>)\<close> closes the list.
\<close>

definition parse_params :: "token list \<Rightarrow> (param list \<times> token list) option" where
  "parse_params ts =
     (let inner = takeWhile (\<lambda>x. x \<noteq> RParen) ts;
          rest = dropWhile (\<lambda>x. x \<noteq> RParen) ts
      in case rest of
           [] \<Rightarrow> None
         | _ # rest' \<Rightarrow>
             (if inner = [] then Some ([], rest')
              else map_option (\<lambda>ps. (ps, rest')) (those (map parse_param (split_commas [] inner)))))"

fun skip_block :: "nat \<Rightarrow> token list \<Rightarrow> token list option" where
  "skip_block d [] = None"
| "skip_block d (x # ts) =
     (if x = LBrace then skip_block (Suc d) ts
      else if x = RBrace then (case d of 0 \<Rightarrow> Some ts | Suc d' \<Rightarrow> skip_block d' ts)
      else skip_block d ts)"

text \<open>What follows a parameter list: \<open>;\<close> for a declaration, a brace block for a definition.\<close>

definition parse_end :: "token list \<Rightarrow> (bool \<times> token list) option" where
  "parse_end ts =
     (case ts of
        [] \<Rightarrow> None
      | x # rest \<Rightarrow>
          if x = Semi then Some (False, rest)
          else if x = LBrace then map_option (\<lambda>r. (True, r)) (skip_block 0 rest)
          else None)"

definition access_of :: "string \<Rightarrow> access option" where
  "access_of w =
     (if w = ''private'' then Some Private
      else if w = ''protected'' then Some Protected
      else if w = ''public'' then Some Public
      else None)"

definition parse_function_tail :: "token list \<Rightarrow> (param list \<times> bool \<times> token list) option" where
  "parse_function_tail ts =
     (case parse_params ts of
        None \<Rightarrow> None
      | Some (ps, rest) \<Rightarrow>
          (case parse_end rest of
             None \<Rightarrow> None
           | Some (d, rest') \<Rightarrow> Some (ps, d, rest')))"

text \<open>One member of the class named \<open>cls\<close>, and the tokens after it.\<close>

definition parse_member :: "string \<Rightarrow> token list \<Rightarrow> (member \<times> token list) option" where
  "parse_member cls ts =
     (case ts of
        Tilde # TIdent n # LParen # RParen # rest \<Rightarrow>
          (if n = cls then
             (case parse_end rest of
                None \<Rightarrow> None
              | Some (d, rest') \<Rightarrow> Some (Destructor d, rest'))
           else None)
      | TIdent n # LParen # rest \<Rightarrow>
          (if n = cls then
             (case parse_function_tail rest of
                None \<Rightarrow> None
              | Some (ps, d, rest') \<Rightarrow> Some (Constructor ps d, rest'))
           else None)
      | _ \<Rightarrow>
          (case parse_type ts of
             Some (ty, TIdent n # Semi # rest) \<Rightarrow> Some (Field ty n, rest)
           | Some (ty, TIdent n # LParen # rest) \<Rightarrow>
               (case parse_function_tail rest of
                  None \<Rightarrow> None
                | Some (ps, d, rest') \<Rightarrow> Some (Method ty n ps d, rest'))
           | _ \<Rightarrow> None))"

text \<open>
  The members of a class body up to its closing \<open>};\<close>, each with the access in force
  where it stands. The first argument bounds the number of steps; the token count is
  enough, since every step consumes a token.
\<close>

fun parse_members ::
  "nat \<Rightarrow> string \<Rightarrow> access \<Rightarrow> token list \<Rightarrow> ((access \<times> member) list \<times> token list) option" where
  "parse_members 0 cls a ts = None"
| "parse_members (Suc k) cls a ts =
     (case ts of
        RBrace # Semi # rest \<Rightarrow> Some ([], rest)
      | _ \<Rightarrow>
          (case (case ts of TIdent w # Colon # rest \<Rightarrow> map_option (\<lambda>a'. (a', rest)) (access_of w)
                          | _ \<Rightarrow> None) of
             Some (a', rest) \<Rightarrow> parse_members k cls a' rest
           | None \<Rightarrow>
               (case parse_member cls ts of
                  None \<Rightarrow> None
                | Some (m, rest) \<Rightarrow>
                    (case parse_members k cls a rest of
                       None \<Rightarrow> None
                     | Some (ms, rest') \<Rightarrow> Some ((a, m) # ms, rest')))))"

text \<open>A base specifier; the access of a base of a \<open>class\<close> is private when none is written.\<close>

definition parse_base :: "token list \<Rightarrow> (access \<times> string) option" where
  "parse_base ts =
     (case ts of
        [TIdent b] \<Rightarrow> (if access_of b = None then Some (Private, b) else None)
      | [TIdent w, TIdent b] \<Rightarrow> map_option (\<lambda>a. (a, b)) (access_of w)
      | _ \<Rightarrow> None)"

definition parse_bases :: "token list \<Rightarrow> ((access \<times> string) list \<times> token list) option" where
  "parse_bases ts =
     (case ts of
        LBrace # rest \<Rightarrow> Some ([], rest)
      | Colon # rest \<Rightarrow>
          (case dropWhile (\<lambda>x. x \<noteq> LBrace) rest of
             [] \<Rightarrow> None
           | _ # rest' \<Rightarrow>
               map_option (\<lambda>bs. (bs, rest'))
                 (those (map parse_base (split_commas [] (takeWhile (\<lambda>x. x \<noteq> LBrace) rest)))))
      | _ \<Rightarrow> None)"

definition unbracket :: "string \<Rightarrow> string option" where
  "unbracket w =
     (if 2 \<le> length w \<and> hd w = CHR ''<'' \<and> last w = CHR ''>'' then Some (butlast (tl w))
      else None)"

definition parse_directive :: "string list \<Rightarrow> toplevel option" where
  "parse_directive ws =
     (if ws = [''pragma'', ''once''] then Some PragmaOnce
      else
        (case ws of
           [kw, f] \<Rightarrow> (if kw = ''include'' then map_option Include (unbracket f) else None)
         | _ \<Rightarrow> None))"

text \<open>One item at the top level of the file, and the tokens after it.\<close>

definition parse_item :: "nat \<Rightarrow> token list \<Rightarrow> (toplevel \<times> token list) option" where
  "parse_item k ts =
     (case ts of
        Directive ws # rest \<Rightarrow> map_option (\<lambda>d. (d, rest)) (parse_directive ws)
      | TIdent kw # TIdent n # rest \<Rightarrow>
          (if kw = ''class'' then
             (case rest of
                Semi # rest' \<Rightarrow> Some (ForwardClass n, rest')
              | _ \<Rightarrow>
                  (case parse_bases rest of
                     None \<Rightarrow> None
                   | Some (bs, body) \<Rightarrow>
                       (case parse_members k n Private body of
                          None \<Rightarrow> None
                        | Some (ms, rest') \<Rightarrow> Some (ClassDef (Class n bs ms), rest'))))
           else
             (case rest of
                Semi # rest' \<Rightarrow> Some (GlobalVar (Named kw) n, rest')
              | LParen # rest' \<Rightarrow>
                  (case parse_function_tail rest' of
                     None \<Rightarrow> None
                   | Some (ps, d, rest'') \<Rightarrow> Some (Function (Named kw) n ps d, rest''))
              | _ \<Rightarrow> None))
      | _ \<Rightarrow>
          (case parse_type ts of
             Some (ty, TIdent n # Semi # rest) \<Rightarrow> Some (GlobalVar ty n, rest)
           | Some (ty, TIdent n # LParen # rest) \<Rightarrow>
               (case parse_function_tail rest of
                  None \<Rightarrow> None
                | Some (ps, d, rest') \<Rightarrow> Some (Function ty n ps d, rest'))
           | _ \<Rightarrow> None))"

fun parse_items :: "nat \<Rightarrow> token list \<Rightarrow> toplevel list option" where
  "parse_items 0 ts = None"
| "parse_items (Suc k) ts =
     (if ts = [] then Some []
      else
        (case parse_item k ts of
           None \<Rightarrow> None
         | Some (d, rest) \<Rightarrow> map_option (\<lambda>ds. d # ds) (parse_items k rest)))"

definition parse_header :: "string list \<Rightarrow> toplevel list option" where
  "parse_header ls =
     (case lex ls of
        None \<Rightarrow> None
      | Some ts \<Rightarrow> parse_items (Suc (length ts)) ts)"

section \<open>The header as declarations\<close>

text \<open>
  The declarations of the header, written out: line 1, lines 3 and 4, line 8 and the class
  of lines 15 to 28, with its member of line 21 under \<open>private:\<close> and its constructor of
  line 27 under \<open>public:\<close>. They are what the parser reads in the text (lemma
  \<open>mainwindow_h_parsed\<close>), and the properties below are stated on the parsed text.
\<close>

definition MainWindow_constructor :: member where
  "MainWindow_constructor =
     Constructor [Param (Pointer (Named ''QWidget'')) ''parent'' (Some 0)] False"

definition MainWindow_class :: class_def where
  "MainWindow_class =
     Class ''MainWindow'' [(Public, ''QMainWindow'')]
       [(Private, Field (Pointer (Named ''SettingsWindow'')) ''settingswindow''),
        (Public, MainWindow_constructor)]"

definition mainwindow_h :: "toplevel list" where
  "mainwindow_h =
     [PragmaOnce,
      Include ''QWidget'',
      Include ''QMainWindow'',
      ForwardClass ''SettingsWindow'',
      ClassDef MainWindow_class]"

definition class_defs :: "toplevel list \<Rightarrow> class_def list" where
  "class_defs ds = concat (map (\<lambda>d. case d of ClassDef c \<Rightarrow> [c] | _ \<Rightarrow> []) ds)"

definition find_class :: "string \<Rightarrow> toplevel list \<Rightarrow> class_def option" where
  "find_class n ds = find (\<lambda>c. cname c = n) (class_defs ds)"

text \<open>The class of a given name that the header defines, read off the parsed text.\<close>

definition header_class :: "string \<Rightarrow> class_def option" where
  "header_class n =
     (case parse_header mainwindow_h_text of
        None \<Rightarrow> None
      | Some ds \<Rightarrow> find_class n ds)"

section \<open>Members, access and the interface of a class\<close>

definition declared_public :: "class_def \<Rightarrow> member list" where
  "declared_public c = map snd (filter (\<lambda>am. fst am = Public) (members c))"

definition data_members :: "class_def \<Rightarrow> (access \<times> ctype \<times> string) list" where
  "data_members c =
     concat (map (\<lambda>am. case snd am of Field t n \<Rightarrow> [(fst am, t, n)] | _ \<Rightarrow> []) (members c))"

definition is_destructor :: "member \<Rightarrow> bool" where
  "is_destructor m = (case m of Destructor _ \<Rightarrow> True | _ \<Rightarrow> False)"

definition member_functions :: "class_def \<Rightarrow> member list" where
  "member_functions c =
     filter (\<lambda>m. case m of Field _ _ \<Rightarrow> False | _ \<Rightarrow> True) (map snd (members c))"

definition declares_destructor :: "class_def \<Rightarrow> bool" where
  "declares_destructor c = list_ex is_destructor (map snd (members c))"

definition constructors :: "class_def \<Rightarrow> param list list" where
  "constructors c =
     concat (map (\<lambda>m. case m of Constructor ps _ \<Rightarrow> [ps] | _ \<Rightarrow> []) (map snd (members c)))"

text \<open>
  Where the code that names a member stands: in a member of the class \<open>C\<close>, in a member
  of a class derived from \<open>C\<close>, or anywhere else. The grammar has no \<open>friend\<close>
  declaration, so a class it accepts has no friends.
\<close>

datatype accessor = MemberOf string | DerivedFrom string | Elsewhere

fun permits :: "access \<Rightarrow> string \<Rightarrow> accessor \<Rightarrow> bool" where
  "permits Public c who = True"
| "permits Protected c who = (who = MemberOf c \<or> who = DerivedFrom c)"
| "permits Private c who = (who = MemberOf c)"

definition can_access :: "class_def \<Rightarrow> accessor \<Rightarrow> string \<Rightarrow> bool" where
  "can_access c who n =
     list_ex (\<lambda>f. snd (snd f) = n \<and> permits (fst f) (cname c) who) (data_members c)"

text \<open>
  The conversion from a class to one of its direct bases is allowed where the base is
  accessible.
\<close>

definition converts_to_base :: "class_def \<Rightarrow> accessor \<Rightarrow> string \<Rightarrow> bool" where
  "converts_to_base c who b =
     list_ex (\<lambda>ab. snd ab = b \<and> permits (fst ab) (cname c) who) (bases c)"

text \<open>
  The special member functions that a class does not declare are declared implicitly,
  each as a public member of the class. The grammar has no reference type and no operator
  name, so a class it accepts declares no copy constructor, no move constructor and no
  assignment operator of its own, and the rules come down to these: a default constructor
  is declared implicitly when the class declares no constructor at all; the copy
  constructor and the copy assignment operator always; the move constructor and the move
  assignment operator when the class declares no destructor; the destructor when the
  class declares none. Whether an implicitly declared function is defined as deleted
  depends on the bases and is not decided here.
\<close>

datatype special =
    DefaultConstructor
  | CopyConstructor
  | MoveConstructor
  | CopyAssignment
  | MoveAssignment
  | TheDestructor

definition implicitly_declared :: "class_def \<Rightarrow> special list" where
  "implicitly_declared c =
     (if constructors c = [] then [DefaultConstructor] else [])
     @ [CopyConstructor]
     @ (if declares_destructor c then [] else [MoveConstructor])
     @ [CopyAssignment]
     @ (if declares_destructor c then [] else [MoveAssignment, TheDestructor])"

text \<open>
  The public members of a class: the ones it declares as public, the implicitly declared
  special member functions, and the public members of its public bases. The bases of
  \<open>MainWindow\<close> are classes of the GUI toolkit, declared in the headers that lines 3 and 4
  include; their public members are the parameter \<open>base_public\<close>.
\<close>

datatype operation = Declared member | Implicit special | Inherited string member

definition public_interface :: "(string \<Rightarrow> member list) \<Rightarrow> class_def \<Rightarrow> operation list" where
  "public_interface base_public c =
     map Declared (declared_public c)
     @ map Implicit (implicitly_declared c)
     @ concat (map (\<lambda>ab. if fst ab = Public then map (Inherited (snd ab)) (base_public (snd ab))
                          else [])
                (bases c))"

section \<open>Uses of a type name\<close>

fun type_name :: "ctype \<Rightarrow> string" where
  "type_name (Named n) = n"
| "type_name (Pointer t) = type_name t"

definition member_types :: "member \<Rightarrow> ctype list" where
  "member_types m =
     (case m of
        Field t _ \<Rightarrow> [t]
      | Constructor ps _ \<Rightarrow> map ptype ps
      | Destructor _ \<Rightarrow> []
      | Method t _ ps _ \<Rightarrow> t # map ptype ps)"

datatype use =
    AsBase string
  | InMember string access member ctype
  | InGlobal string ctype
  | InFunction string ctype

definition class_uses :: "string \<Rightarrow> class_def \<Rightarrow> use list" where
  "class_uses n c =
     map (\<lambda>ab. AsBase (cname c)) (filter (\<lambda>ab. snd ab = n) (bases c))
     @ concat (map (\<lambda>am. map (InMember (cname c) (fst am) (snd am))
                            (filter (\<lambda>t. type_name t = n) (member_types (snd am))))
                (members c))"

definition uses_of :: "string \<Rightarrow> toplevel list \<Rightarrow> use list" where
  "uses_of n ds =
     concat (map (\<lambda>d. case d of
                         ClassDef c \<Rightarrow> class_uses n c
                       | GlobalVar t v \<Rightarrow> (if type_name t = n then [InGlobal v t] else [])
                       | Function t f ps _ \<Rightarrow>
                           map (InFunction f) (filter (\<lambda>t'. type_name t' = n) (t # map ptype ps))
                       | _ \<Rightarrow> [])
              ds)"

text \<open>The functions that come with a body, members or not.\<close>

definition defined_functions :: "toplevel list \<Rightarrow> string list" where
  "defined_functions ds =
     concat (map (\<lambda>d. case d of
                         ClassDef c \<Rightarrow>
                           concat (map (\<lambda>m. case m of
                                               Constructor _ True \<Rightarrow> [cname c]
                                             | Destructor True \<Rightarrow> [CHR ''~'' # cname c]
                                             | Method _ f _ True \<Rightarrow> [f]
                                             | _ \<Rightarrow> [])
                                     (map snd (members c)))
                       | Function _ f _ True \<Rightarrow> [f]
                       | _ \<Rightarrow> [])
              ds)"

section \<open>Objects\<close>

text \<open>
  \<open>SettingsWindow\<close> is declared and never defined: an incomplete type, of which the
  header can only form pointers. A pointer is an address; the null pointer is address 0.
\<close>

typedecl SettingsWindow

definition null_address :: nat where
  "null_address = 0"

datatype 'a ptr = Ptr (addr: nat)

definition null :: "'a ptr" where
  "null = Ptr null_address"

text \<open>
  A \<open>MainWindow\<close> object: the subobject of its base class \<open>QMainWindow\<close> (the toolkit's,
  so of a type not fixed here) and the one data member.
\<close>

record 'q MainWindow =
  qmainwindow :: 'q
  settingswindow :: "SettingsWindow ptr"

definition upcast :: "'q MainWindow \<Rightarrow> 'q" where
  "upcast w = qmainwindow w"

section \<open>Calling the constructor\<close>

text \<open>
  A call may leave out trailing arguments whose parameters have a default; the defaults
  are filled in at the call. A call with too many arguments, or with too few where a
  parameter has no default, is ill-formed.
\<close>

fun fill_defaults :: "param list \<Rightarrow> nat list \<Rightarrow> nat list option" where
  "fill_defaults [] [] = Some []"
| "fill_defaults [] (a # as) = None"
| "fill_defaults (p # ps) (a # as) = map_option (\<lambda>vs. a # vs) (fill_defaults ps as)"
| "fill_defaults (p # ps) [] =
     (case pdefault p of
        None \<Rightarrow> None
      | Some d \<Rightarrow> map_option (\<lambda>vs. d # vs) (fill_defaults ps []))"

text \<open>
  The body of the constructor is in no file of the sources; \<open>body\<close> stands for it, as a
  function of the argument values the call passes.
\<close>

definition construct :: "class_def \<Rightarrow> (nat list \<Rightarrow> 'r) \<Rightarrow> nat list \<Rightarrow> 'r option" where
  "construct c body args =
     (case constructors c of
        [ps] \<Rightarrow> map_option body (fill_defaults ps args)
      | _ \<Rightarrow> None)"

definition new_MainWindow :: "(nat list \<Rightarrow> 'r) \<Rightarrow> nat list \<Rightarrow> 'r option" where
  "new_MainWindow body args =
     (case header_class ''MainWindow'' of
        None \<Rightarrow> None
      | Some c \<Rightarrow> construct c body args)"

section \<open>Destroying an object\<close>

text \<open>
  A class that declares no destructor gets the implicit one: an empty body, then the data
  members are destroyed in reverse order of declaration, then the direct bases in reverse
  order. Destroying a member of pointer type does nothing; it does not delete what the
  pointer refers to. A member held by value is outside this model (\<open>None\<close>). The
  destructors of the bases are the toolkit's: \<open>base_dtor b this\<close> is the effect on the heap
  of the destructor of base \<open>b\<close> run on the object at address \<open>this\<close>.
\<close>

definition destroy_member :: "ctype \<Rightarrow> 'h \<Rightarrow> 'h option" where
  "destroy_member t h = (case t of Pointer _ \<Rightarrow> Some h | Named _ \<Rightarrow> None)"

fun destroy_members :: "ctype list \<Rightarrow> 'h \<Rightarrow> 'h option" where
  "destroy_members [] h = Some h"
| "destroy_members (t # ts) h =
     (case destroy_member t h of
        None \<Rightarrow> None
      | Some h' \<Rightarrow> destroy_members ts h')"

definition implicit_destructor ::
  "(string \<Rightarrow> nat \<Rightarrow> 'h \<Rightarrow> 'h) \<Rightarrow> class_def \<Rightarrow> nat \<Rightarrow> 'h \<Rightarrow> 'h option" where
  "implicit_destructor base_dtor c this h =
     (if declares_destructor c then None
      else
        (case destroy_members (rev (map (\<lambda>f. fst (snd f)) (data_members c))) h of
           None \<Rightarrow> None
         | Some h' \<Rightarrow> Some (fold (\<lambda>ab. base_dtor (snd ab) this) (rev (bases c)) h')))"

definition destroy_MainWindow ::
  "(string \<Rightarrow> nat \<Rightarrow> 'h \<Rightarrow> 'h) \<Rightarrow> nat \<Rightarrow> 'h \<Rightarrow> 'h option" where
  "destroy_MainWindow base_dtor this h =
     (case header_class ''MainWindow'' of
        None \<Rightarrow> None
      | Some c \<Rightarrow> implicit_destructor base_dtor c this h)"

section \<open>Including the header\<close>

text \<open>
  The preprocessor, on parsed files: \<open>fs\<close> gives the items of the file of a name, the
  state holds the files marked \<open>#pragma once\<close> so far and the declarations seen so far. A
  file that is marked is skipped when it is included again. Includes nest up to a depth
  limit (the first argument), as in every implementation.
\<close>

record pp_state =
  once_files :: "string list"
  declared :: "toplevel list"

datatype pp_error = FileNotFound string | NestingTooDeep

fun fold_result :: "('a \<Rightarrow> 's \<Rightarrow> pp_error + 's) \<Rightarrow> 'a list \<Rightarrow> 's \<Rightarrow> pp_error + 's" where
  "fold_result f [] s = Inr s"
| "fold_result f (x # xs) s =
     (case f x s of
        Inl e \<Rightarrow> Inl e
      | Inr s' \<Rightarrow> fold_result f xs s')"

fun include_file ::
  "nat \<Rightarrow> (string \<Rightarrow> toplevel list option) \<Rightarrow> string \<Rightarrow> pp_state \<Rightarrow> pp_error + pp_state" where
  "include_file 0 fs name st = Inl NestingTooDeep"
| "include_file (Suc d) fs name st =
     (if name \<in> set (once_files st) then Inr st
      else
        (case fs name of
           None \<Rightarrow> Inl (FileNotFound name)
         | Some items \<Rightarrow>
             fold_result
               (\<lambda>item st'.
                  case item of
                    PragmaOnce \<Rightarrow> Inr (st'\<lparr>once_files := name # once_files st'\<rparr>)
                  | Include n \<Rightarrow> include_file d fs n st'
                  | _ \<Rightarrow> Inr (st'\<lparr>declared := declared st' @ [item]\<rparr>))
               items st))"

text \<open>A translation unit that includes the same file \<open>n\<close> times in a row.\<close>

fun include_times ::
  "nat \<Rightarrow> nat \<Rightarrow> (string \<Rightarrow> toplevel list option) \<Rightarrow> string \<Rightarrow> pp_state
     \<Rightarrow> pp_error + pp_state" where
  "include_times 0 d fs name st = Inr st"
| "include_times (Suc n) d fs name st =
     (case include_file d fs name st of
        Inl e \<Rightarrow> Inl e
      | Inr st' \<Rightarrow> include_times n d fs name st')"

definition defines_class :: "string \<Rightarrow> toplevel \<Rightarrow> bool" where
  "defines_class n d = (case d of ClassDef c \<Rightarrow> cname c = n | _ \<Rightarrow> False)"

definition empty_state :: pp_state where
  "empty_state = \<lparr>once_files = [], declared = []\<rparr>"

definition count_defs :: "string \<Rightarrow> toplevel list \<Rightarrow> nat" where
  "count_defs c ds = length (filter (defines_class c) ds)"

text \<open>
  A small file system to run the preprocessor on: the header under its name, and two
  headers in place of the toolkit's, neither of them guarded.
\<close>

definition toolkit_example :: "string \<Rightarrow> toplevel list option" where
  "toolkit_example f =
     (if f = ''mainwindow.h'' then parse_header mainwindow_h_text
      else if f = ''QWidget'' then Some [ClassDef (Class ''QWidget'' [] [])]
      else if f = ''QMainWindow'' then
        Some [Include ''QWidget'', ClassDef (Class ''QMainWindow'' [(Public, ''QWidget'')] [])]
      else None)"

section \<open>The header parses\<close>

lemma mainwindow_h_lexed:
  "lex mainwindow_h_text =
     Some [Directive [''pragma'', ''once''], Directive [''include'', ''<QWidget>''],
           Directive [''include'', ''<QMainWindow>''],
           TIdent ''class'', TIdent ''SettingsWindow'', Semi,
           TIdent ''class'', TIdent ''MainWindow'', Colon, TIdent ''public'', TIdent ''QMainWindow'',
           LBrace,
           TIdent ''private'', Colon,
           TIdent ''SettingsWindow'', Star, TIdent ''settingswindow'', Semi,
           TIdent ''public'', Colon,
           TIdent ''MainWindow'', LParen, TIdent ''QWidget'', Star, TIdent ''parent'', Assign, TNum 0,
           RParen, Semi,
           RBrace, Semi]"
  by code_simp

lemma mainwindow_h_parsed: "parse_header mainwindow_h_text = Some mainwindow_h"
  by code_simp

lemma header_class_MainWindow: "header_class ''MainWindow'' = Some MainWindow_class"
  by (simp add: header_class_def mainwindow_h_parsed mainwindow_h_def find_class_def
      class_defs_def MainWindow_class_def)

text \<open>The parser is not satisfied by everything: a class body that lacks its closing \<open>;\<close>.\<close>

lemma parse_header_refuses: "parse_header [''class A { int x; }''] = None"
  by code_simp

lemma parse_header_skips_comments:
  "parse_header [''/* a'', ''int y; */ int x; // int z;''] = Some [GlobalVar (Named ''int'') ''x'']"
  by code_simp

lemma parse_header_sees_bodies:
  "map_option defined_functions (parse_header [''class A { A() { } int f(int a); };'']) = Some [''A'']"
  by code_simp

section \<open>The public interface\<close>

text \<open>
  Through public inheritance the public members of \<open>QMainWindow\<close> are public members of
  \<open>MainWindow\<close>, whatever they are.
\<close>

lemma public_interface_inherits:
  "m \<in> set (base_public ''QMainWindow'') \<Longrightarrow>
   Inherited ''QMainWindow'' m \<in> set (public_interface base_public MainWindow_class)"
  by (simp add: public_interface_def MainWindow_class_def)

lemma MainWindow_implicitly_declared:
  "map_option implicitly_declared (header_class ''MainWindow'') =
     Some [CopyConstructor, MoveConstructor, CopyAssignment, MoveAssignment, TheDestructor]"
  by (simp add: header_class_MainWindow MainWindow_class_def implicitly_declared_def
      constructors_def declares_destructor_def is_destructor_def MainWindow_constructor_def)

text \<open>
  C1, as amended. The public interface that \<open>MainWindow\<close> itself declares is exactly one
  operation: the constructor, declared and not defined, with the single parameter
  \<open>QWidget *parent = 0\<close>; the class declares no other public method or field. The default
  makes the argument optional: the constructor is called with no argument or with one, and
  not with more.
\<close>

theorem MainWindow_declared_public_members:
  "map_option declared_public (header_class ''MainWindow'') =
     Some [Constructor [Param (Pointer (Named ''QWidget'')) ''parent'' (Some 0)] False]
   \<and> new_MainWindow id [] = Some [0]
   \<and> new_MainWindow id [p] = Some [p]
   \<and> new_MainWindow id (p # q # args) = None"
  by (simp add: header_class_MainWindow MainWindow_class_def declared_public_def
      MainWindow_constructor_def new_MainWindow_def construct_def constructors_def)

text \<open>
  C1 as stated fails: the constructor is not the whole public interface. Even when the
  bases contribute nothing, the class has public members that it does not declare, the
  implicitly declared destructor among them.
\<close>

theorem MainWindow_public_interface_has_more:
  "map_option (public_interface (\<lambda>b. [])) (header_class ''MainWindow'') \<noteq>
     Some [Declared (Constructor [Param (Pointer (Named ''QWidget'')) ''parent'' (Some 0)] False)]"
  by (simp add: header_class_MainWindow MainWindow_class_def declared_public_def
      MainWindow_constructor_def public_interface_def implicitly_declared_def)

section \<open>The state of a MainWindow\<close>

text \<open>
  C2. The class declares exactly one data member, \<open>settingswindow\<close>, of type pointer to
  \<open>SettingsWindow\<close>, and it is private: code can name it exactly when it stands in a member
  of \<open>MainWindow\<close>. An object is its base subobject and this one pointer, nothing more.
\<close>

theorem MainWindow_single_private_member:
  "map_option data_members (header_class ''MainWindow'') =
     Some [(Private, Pointer (Named ''SettingsWindow''), ''settingswindow'')]
   \<and> (\<forall>who. map_option (\<lambda>c. can_access c who ''settingswindow'') (header_class ''MainWindow'')
          = Some (who = MemberOf ''MainWindow''))
   \<and> (\<forall>w :: 'q MainWindow. w = \<lparr>qmainwindow = qmainwindow w, settingswindow = settingswindow w\<rparr>)"
  by (simp add: header_class_MainWindow MainWindow_class_def data_members_def
      MainWindow_constructor_def can_access_def)

text \<open>
  C3. \<open>MainWindow\<close> has exactly one base, \<open>QMainWindow\<close>, and the base is public: the
  conversion from a \<open>MainWindow\<close> to its \<open>QMainWindow\<close> is allowed wherever the code stands,
  and it yields the base subobject of the object, for every object.
\<close>

theorem MainWindow_derives_from_QMainWindow:
  "map_option bases (header_class ''MainWindow'') = Some [(Public, ''QMainWindow'')]
   \<and> (\<forall>who. map_option (\<lambda>c. converts_to_base c who ''QMainWindow'') (header_class ''MainWindow'')
          = Some True)
   \<and> (\<forall>q p. upcast \<lparr>qmainwindow = q, settingswindow = p\<rparr> = q)"
  by (simp add: header_class_MainWindow MainWindow_class_def converts_to_base_def upcast_def)

section \<open>SettingsWindow\<close>

text \<open>
  C5. The header declares \<open>class SettingsWindow;\<close> and does not define the class, and the
  name is used in one place only: as the pointee of the type of the private member
  \<open>settingswindow\<close> of \<open>MainWindow\<close>. In the token stream the name occurs twice, in the
  forward declaration and in that member.
\<close>

theorem SettingsWindow_only_forward_declared:
  "map_option (\<lambda>ds. (ForwardClass ''SettingsWindow'' \<in> set ds,
                      find_class ''SettingsWindow'' ds,
                      uses_of ''SettingsWindow'' ds))
     (parse_header mainwindow_h_text) =
   Some (True, None,
         [InMember ''MainWindow'' Private
            (Field (Pointer (Named ''SettingsWindow'')) ''settingswindow'')
            (Pointer (Named ''SettingsWindow''))])
   \<and> map_option (\<lambda>ts. count_list ts (TIdent ''SettingsWindow'')) (lex mainwindow_h_text) = Some 2"
  by (simp add: mainwindow_h_parsed mainwindow_h_lexed mainwindow_h_def find_class_def class_defs_def
      MainWindow_class_def uses_of_def class_uses_def member_types_def MainWindow_constructor_def)

section \<open>The file\<close>

text \<open>
  C7. The source is one file, the header \<open>src/cpp/mainwindow.h\<close>, of 28 lines. It parses to
  the \<open>#pragma once\<close>, two includes, the forward declaration of \<open>SettingsWindow\<close> and the
  definition of the class \<open>MainWindow\<close>, and to nothing else; no function in it has a body.
\<close>

theorem mainwindow_h_declarations_only:
  "map fst source_files = [''src/cpp/mainwindow.h'']
   \<and> map (\<lambda>f. length (snd f)) source_files = [28]
   \<and> parse_header mainwindow_h_text =
       Some [PragmaOnce, Include ''QWidget'', Include ''QMainWindow'',
             ForwardClass ''SettingsWindow'', ClassDef MainWindow_class]
   \<and> cname MainWindow_class = ''MainWindow''
   \<and> map_option defined_functions (parse_header mainwindow_h_text) = Some []"
proof -
  have lines: "length mainwindow_h_text = 28"
    by (simp add: mainwindow_h_text_def)
  have bodies: "defined_functions mainwindow_h = []"
    by (simp add: mainwindow_h_def defined_functions_def MainWindow_class_def
        MainWindow_constructor_def)
  show ?thesis
    using lines bodies
    by (simp add: source_files_def mainwindow_h_parsed mainwindow_h_def MainWindow_class_def)
qed

section \<open>Construction\<close>

text \<open>
  The parameter \<open>parent\<close> defaults to 0, the null pointer: whatever the body of the
  constructor is, a call with no argument is the call with the null pointer as argument.
  What the body makes of its argument is not in the header.
\<close>

lemma MainWindow_default_parent_null:
  "new_MainWindow body [] = new_MainWindow body [null_address]
   \<and> new_MainWindow body [] = Some (body [null_address])"
  by (simp add: new_MainWindow_def header_class_MainWindow MainWindow_class_def construct_def
      constructors_def MainWindow_constructor_def null_address_def)

section \<open>Destruction\<close>

text \<open>
  \<open>MainWindow\<close> declares no destructor, and its only member function is the constructor
  from a \<open>QWidget *\<close>. The implicit destructor applies, and all it does to the heap is
  what the destructor of the base \<open>QMainWindow\<close> does: nothing is deleted through
  \<open>settingswindow\<close>. What the destructor of the base does is not in the header.
\<close>

lemma MainWindow_destructor_is_base_destructor:
  "map_option declares_destructor (header_class ''MainWindow'') = Some False
   \<and> map_option member_functions (header_class ''MainWindow'') =
       Some [Constructor [Param (Pointer (Named ''QWidget'')) ''parent'' (Some 0)] False]
   \<and> destroy_MainWindow base_dtor this h = Some (base_dtor ''QMainWindow'' this h)"
  by (simp add: destroy_MainWindow_def header_class_MainWindow MainWindow_class_def
      implicit_destructor_def declares_destructor_def is_destructor_def member_functions_def
      data_members_def destroy_member_def MainWindow_constructor_def)

section \<open>Repeated inclusion\<close>

lemma fold_result_invariant:
  assumes "fold_result f xs s = Inr s'" and "P s"
    and "\<And>x t t'. x \<in> set xs \<Longrightarrow> P t \<Longrightarrow> f x t = Inr t' \<Longrightarrow> P t'"
  shows "P s'"
  using assms
proof (induction xs arbitrary: s)
  case Nil
  then show ?case by simp
next
  case (Cons x xs)
  from Cons.prems(1) obtain t where t: "f x s = Inr t" and rest: "fold_result f xs t = Inr s'"
    by (auto split: sum.splits)
  have "P t"
    using Cons.prems(3)[of x s t] Cons.prems(2) t by simp
  then show ?case
    using Cons.IH[OF rest] Cons.prems(3) by auto
qed

lemma fold_result_reaches:
  assumes "fold_result f xs s = Inr s'" and "x \<in> set xs"
    and "\<And>t t'. f x t = Inr t' \<Longrightarrow> Q t'"
    and "\<And>y t t'. y \<in> set xs \<Longrightarrow> Q t \<Longrightarrow> f y t = Inr t' \<Longrightarrow> Q t'"
  shows "Q s'"
  using assms
proof (induction xs arbitrary: s)
  case Nil
  then show ?case by simp
next
  case (Cons y ys)
  from Cons.prems(1) obtain t where t: "f y s = Inr t" and rest: "fold_result f ys t = Inr s'"
    by (auto split: sum.splits)
  show ?case
  proof (cases "x = y")
    case True
    then have "Q t"
      using Cons.prems(3) t by simp
    then show ?thesis
      using fold_result_invariant[OF rest, of Q] Cons.prems(4) by auto
  next
    case False
    then have "x \<in> set ys"
      using Cons.prems(2) by simp
    then show ?thesis
      using Cons.IH[OF rest] Cons.prems(3,4) by (meson list.set_intros(2))
  qed
qed

lemma include_file_once_mono:
  "include_file d fs name st = Inr st' \<Longrightarrow> set (once_files st) \<subseteq> set (once_files st')"
proof (induction d arbitrary: name st st')
  case 0
  then show ?case by simp
next
  case (Suc d)
  show ?case
  proof (cases "name \<in> set (once_files st)")
    case True
    then show ?thesis using Suc.prems by simp
  next
    case False
    then obtain items where
      run: "fold_result
              (\<lambda>item st'.
                 case item of
                   PragmaOnce \<Rightarrow> Inr (st'\<lparr>once_files := name # once_files st'\<rparr>)
                 | Include n \<Rightarrow> include_file d fs n st'
                 | _ \<Rightarrow> Inr (st'\<lparr>declared := declared st' @ [item]\<rparr>))
              items st = Inr st'"
      using Suc.prems by (auto split: option.splits)
    show ?thesis
      by (rule fold_result_invariant[OF run, of "\<lambda>t. set (once_files st) \<subseteq> set (once_files t)"])
        (auto split: toplevel.splits dest: Suc.IH)
  qed
qed

lemma include_file_marks:
  assumes "include_file d fs name st = Inr st'" and "fs name = Some items"
    and "PragmaOnce \<in> set items"
  shows "name \<in> set (once_files st')"
proof (cases d)
  case 0
  then show ?thesis using assms(1) by simp
next
  case (Suc d')
  show ?thesis
  proof (cases "name \<in> set (once_files st)")
    case True
    then show ?thesis using assms(1) Suc by simp
  next
    case False
    then have
      run: "fold_result
              (\<lambda>item st'.
                 case item of
                   PragmaOnce \<Rightarrow> Inr (st'\<lparr>once_files := name # once_files st'\<rparr>)
                 | Include n \<Rightarrow> include_file d' fs n st'
                 | _ \<Rightarrow> Inr (st'\<lparr>declared := declared st' @ [item]\<rparr>))
              items st = Inr st'"
      using assms(1,2) Suc by simp
    show ?thesis
      by (rule fold_result_reaches[OF run assms(3), of "\<lambda>t. name \<in> set (once_files t)"])
        (auto split: toplevel.splits dest: include_file_once_mono)
  qed
qed

lemma include_times_skips:
  "name \<in> set (once_files st) \<Longrightarrow> include_times n (Suc d) fs name st = Inr st"
  by (induction n) simp_all

lemma pragma_once_idempotent:
  assumes "fs name = Some items" and "PragmaOnce \<in> set items"
  shows "include_times (Suc n) d fs name st = include_times (Suc 0) d fs name st"
proof (cases "include_file d fs name st")
  case (Inl e)
  then show ?thesis by simp
next
  case (Inr st')
  then obtain d' where d: "d = Suc d'"
    by (cases d) simp_all
  have "name \<in> set (once_files st')"
    using include_file_marks[OF Inr assms] .
  then show ?thesis
    using Inr d by (simp add: include_times_skips)
qed

lemma include_file_foreign:
  assumes foreign: "\<And>f ds. fs f = Some ds \<Longrightarrow> f \<noteq> h \<Longrightarrow> \<not> list_ex (defines_class c) ds"
  shows "include_file d fs f st = Inr st' \<Longrightarrow> h \<in> set (once_files st) \<Longrightarrow>
         h \<in> set (once_files st') \<and> count_defs c (declared st') = count_defs c (declared st)"
proof (induction d arbitrary: f st st')
  case 0
  then show ?case by simp
next
  case (Suc d)
  show ?case
  proof (cases "f \<in> set (once_files st)")
    case True
    then show ?thesis using Suc.prems by simp
  next
    case False
    then have fh: "f \<noteq> h" using Suc.prems(2) by auto
    from False obtain items where items: "fs f = Some items" and
      run: "fold_result
              (\<lambda>item st'.
                 case item of
                   PragmaOnce \<Rightarrow> Inr (st'\<lparr>once_files := f # once_files st'\<rparr>)
                 | Include n \<Rightarrow> include_file d fs n st'
                 | _ \<Rightarrow> Inr (st'\<lparr>declared := declared st' @ [item]\<rparr>))
              items st = Inr st'"
      using Suc.prems by (auto split: option.splits)
    have none: "\<And>x. x \<in> set items \<Longrightarrow> \<not> defines_class c x"
      using foreign[OF items fh] by (simp add: list_ex_iff)
    show ?thesis
      by (rule fold_result_invariant[OF run,
            of "\<lambda>t. h \<in> set (once_files t) \<and> count_defs c (declared t) = count_defs c (declared st)"])
        (use Suc.prems(2) none in \<open>auto split: toplevel.splits dest: Suc.IH simp: count_defs_def\<close>)
  qed
qed


text \<open>
  C10. The header starts with \<open>#pragma once\<close>. In a file system that holds it under its
  name, including it \<open>n \<ge> 1\<close> times in a row gives the outcome of including it once: the
  same declarations, the same marked files, or the same error. When the inclusion
  succeeds from the empty state and no other file defines a class \<open>MainWindow\<close>, the
  translation unit holds exactly one definition of \<open>MainWindow\<close>.
\<close>

theorem mainwindow_h_include_idempotent:
  assumes "fs ''mainwindow.h'' = parse_header mainwindow_h_text" and "1 \<le> n"
  shows "map_option (take 1) (parse_header mainwindow_h_text) = Some [PragmaOnce]
     \<and> include_times n d fs ''mainwindow.h'' st = include_times 1 d fs ''mainwindow.h'' st
     \<and> ((\<forall>f ds. fs f = Some ds \<and> f \<noteq> ''mainwindow.h''
                 \<longrightarrow> \<not> list_ex (defines_class ''MainWindow'') ds)
         \<and> include_times n d fs ''mainwindow.h'' empty_state = Inr st'
        \<longrightarrow> count_defs ''MainWindow'' (declared st') = 1)"
proof -
  have items: "fs ''mainwindow.h'' = Some mainwindow_h"
    using assms(1) by (simp add: mainwindow_h_parsed)
  have once: "PragmaOnce \<in> set mainwindow_h"
    by (simp add: mainwindow_h_def)
  obtain k where n: "n = Suc k"
    using assms(2) by (cases n) simp_all
  have same: "include_times n d fs ''mainwindow.h'' t = include_times 1 d fs ''mainwindow.h'' t" for t
    using pragma_once_idempotent[of fs "''mainwindow.h''" mainwindow_h k d t] items once n by simp
  have one: "count_defs ''MainWindow'' (declared st') = 1"
    if foreign: "\<forall>f ds. fs f = Some ds \<and> f \<noteq> ''mainwindow.h''
                   \<longrightarrow> \<not> list_ex (defines_class ''MainWindow'') ds"
      and run: "include_times n d fs ''mainwindow.h'' empty_state = Inr st'"
  proof -
    have first: "include_file d fs ''mainwindow.h'' empty_state = Inr st'"
      using run same[of empty_state] by (simp split: sum.splits)
    then obtain d' where d: "d = Suc d'"
      by (cases d) simp_all
    define st1 where "st1 = empty_state\<lparr>once_files := [''mainwindow.h'']\<rparr>"
    from first obtain st2 st3 where
      w: "include_file d' fs ''QWidget'' st1 = Inr st2" and
      m: "include_file d' fs ''QMainWindow'' st2 = Inr st3" and
      st': "st' = st3\<lparr>declared := declared st3 @ [ForwardClass ''SettingsWindow'',
                                                    ClassDef MainWindow_class]\<rparr>"
      unfolding d st1_def
      by (auto simp: items mainwindow_h_def empty_state_def split: sum.splits)
    have f: "\<And>f ds. fs f = Some ds \<Longrightarrow> f \<noteq> ''mainwindow.h''
               \<Longrightarrow> \<not> list_ex (defines_class ''MainWindow'') ds"
      using foreign by blast
    have s1: "''mainwindow.h'' \<in> set (once_files st1)" "count_defs ''MainWindow'' (declared st1) = 0"
      by (simp_all add: st1_def empty_state_def count_defs_def)
    have s2: "''mainwindow.h'' \<in> set (once_files st2)" "count_defs ''MainWindow'' (declared st2) = 0"
      using include_file_foreign[of fs "''mainwindow.h''" "''MainWindow''", OF f w s1(1)] s1(2)
      by simp_all
    have s3: "count_defs ''MainWindow'' (declared st3) = 0"
      using include_file_foreign[of fs "''mainwindow.h''" "''MainWindow''", OF f m s2(1)] s2(2)
      by simp
    show ?thesis
      using s3 by (simp add: st' count_defs_def defines_class_def MainWindow_class_def)
  qed
  have guarded: "map_option (take 1) (parse_header mainwindow_h_text) = Some [PragmaOnce]"
    by (simp add: mainwindow_h_parsed mainwindow_h_def)
  show ?thesis
    using guarded same one by blast
qed

lemma toolkit_example_run:
  "include_times 1 8 toolkit_example ''mainwindow.h'' empty_state =
     Inr \<lparr>once_files = [''mainwindow.h''],
          declared =
            [ClassDef (Class ''QWidget'' [] []),
             ClassDef (Class ''QWidget'' [] []),
             ClassDef (Class ''QMainWindow'' [(Public, ''QWidget'')] []),
             ForwardClass ''SettingsWindow'',
             ClassDef MainWindow_class]\<rparr>"
  by (simp add: toolkit_example_def mainwindow_h_parsed mainwindow_h_def empty_state_def
      eval_nat_numeral)

text \<open>
  Three inclusions in the example file system: the result is that of one inclusion, and
  it holds one definition of \<open>MainWindow\<close>, although the unguarded \<open>QWidget\<close> in it is
  read twice.
\<close>

theorem mainwindow_h_include_idempotent_witness:
  "include_times 3 8 toolkit_example ''mainwindow.h'' empty_state
     = include_times 1 8 toolkit_example ''mainwindow.h'' empty_state
   \<and> (\<exists>st'. include_times 3 8 toolkit_example ''mainwindow.h'' empty_state = Inr st'
        \<and> count_defs ''MainWindow'' (declared st') = 1)"
proof -
  have fs: "toolkit_example ''mainwindow.h'' = parse_header mainwindow_h_text"
    by (simp add: toolkit_example_def)
  have foreign: "\<forall>f ds. toolkit_example f = Some ds \<and> f \<noteq> ''mainwindow.h''
                   \<longrightarrow> \<not> list_ex (defines_class ''MainWindow'') ds"
    by (auto simp: toolkit_example_def defines_class_def split: if_splits)
  have n: "(1::nat) \<le> 3"
    by simp
  have idem: "include_times 3 8 toolkit_example ''mainwindow.h'' empty_state
       = include_times 1 8 toolkit_example ''mainwindow.h'' empty_state
     \<and> ((\<forall>f ds. toolkit_example f = Some ds \<and> f \<noteq> ''mainwindow.h''
                 \<longrightarrow> \<not> list_ex (defines_class ''MainWindow'') ds)
         \<and> include_times 3 8 toolkit_example ''mainwindow.h'' empty_state = Inr t
        \<longrightarrow> count_defs ''MainWindow'' (declared t) = 1)" for t
    using mainwindow_h_include_idempotent[of toolkit_example 3 8 empty_state t] fs n by simp
  obtain st' where run: "include_times 3 8 toolkit_example ''mainwindow.h'' empty_state = Inr st'"
    using idem toolkit_example_run by simp
  have "count_defs ''MainWindow'' (declared st') = 1"
    using idem[of st'] foreign run by blast
  then show ?thesis
    using idem[of st'] run by blast
qed

end
